theory Spec2Isabelle
  imports Main "HOL-Library.AList" "HOL-Library.Sublist"
begin

section \<open>Python strings\<close>

text \<open>
  A Python \<open>str\<close> is modelled as a \<open>string\<close>. The text is taken to be ASCII: on ASCII
  text \<open>str.lower\<close> only maps \<open>A\<close>..\<open>Z\<close> to \<open>a\<close>..\<open>z\<close>, and the whitespace of
  \<open>str.split()\<close> and \<open>str.strip()\<close> is tab, line feed, vertical tab, form feed,
  carriage return, the four separators \<open>0x1C\<close>..\<open>0x1F\<close> and the space.
\<close>

definition lower_char :: "char \<Rightarrow> char" where
  "lower_char c =
     (case map_of (zip ''ABCDEFGHIJKLMNOPQRSTUVWXYZ'' ''abcdefghijklmnopqrstuvwxyz'') c of
        Some l \<Rightarrow> l
      | None \<Rightarrow> c)"

definition lower :: "string \<Rightarrow> string" where
  "lower s = map lower_char s"

definition is_space :: "char \<Rightarrow> bool" where
  "is_space c \<longleftrightarrow>
     c \<in> set [CHR 0x09, CHR 0x0A, CHR 0x0B, CHR 0x0C, CHR 0x0D,
                CHR 0x1C, CHR 0x1D, CHR 0x1E, CHR 0x1F, CHR '' '']"

text \<open>\<open>s.strip()\<close>: leading and trailing whitespace removed.\<close>

definition strip :: "string \<Rightarrow> string" where
  "strip s = rev (dropWhile is_space (rev (dropWhile is_space s)))"

text \<open>
  \<open>s.split()\<close>: the maximal runs of non-whitespace characters, in order; \<open>cur\<close> is
  the run being read, reversed.
\<close>

fun split_run :: "string \<Rightarrow> string \<Rightarrow> string list" where
  "split_run cur [] = (if cur = [] then [] else [rev cur])"
| "split_run cur (c # cs) =
     (if is_space c
      then (if cur = [] then split_run [] cs else rev cur # split_run [] cs)
      else split_run (c # cur) cs)"

definition split :: "string \<Rightarrow> string list" where
  "split s = split_run [] s"

text \<open>\<open>s.split(sep)\<close> for a one-character separator: never empty.\<close>

fun split_on_run :: "char \<Rightarrow> string \<Rightarrow> string \<Rightarrow> string list" where
  "split_on_run sep cur [] = [rev cur]"
| "split_on_run sep cur (c # cs) =
     (if c = sep then rev cur # split_on_run sep [] cs else split_on_run sep (c # cur) cs)"

definition split_on :: "char \<Rightarrow> string \<Rightarrow> string list" where
  "split_on sep s = split_on_run sep [] s"

text \<open>\<open>s.replace(old, "")\<close> for a non-empty \<open>old\<close>: every occurrence, left to right.\<close>

function remove_all :: "string \<Rightarrow> string \<Rightarrow> string" where
  "remove_all old [] = []"
| "remove_all old (c # cs) =
     (if old \<noteq> [] \<and> prefix old (c # cs)
      then remove_all old (drop (length old) (c # cs))
      else c # remove_all old cs)"
  by pat_completeness auto
termination
  by (relation "measure (\<lambda>(old, s). length s)") (auto simp: neq_Nil_conv)

text \<open>\<open>k in t\<close> on strings: \<open>k\<close> occurs in \<open>t\<close> as a contiguous substring.\<close>

definition str_in :: "string \<Rightarrow> string \<Rightarrow> bool" where
  "str_in k t = sublist k t"

text \<open>\<open>str(n)\<close> for an integer: decimal digits, with a minus sign when negative.\<close>

definition digit_char :: "nat \<Rightarrow> char" where
  "digit_char d = ''0123456789'' ! d"

fun str_nat :: "nat \<Rightarrow> string" where
  "str_nat n = (if n < 10 then [digit_char n] else str_nat (n div 10) @ [digit_char (n mod 10)])"

declare str_nat.simps [simp del]

definition str_int :: "int \<Rightarrow> string" where
  "str_int i = (if i < 0 then CHR ''-'' # str_nat (nat (- i)) else str_nat (nat i))"

text \<open>\<open>os.path.basename\<close>: what follows the last slash.\<close>

definition basename :: "string \<Rightarrow> string" where
  "basename p = last (split_on CHR ''/'' p)"

section \<open>Intent detection\<close>

text \<open>
  \<open>detect_intent\<close> reads the directory \<open>intents\<close> each time it is called. Its model
  takes what that call reads: the files \<open>glob.glob("intents/*.txt")\<close> returns, in the
  order it returns them, each with the lines the file iterator yields. Console output
  (\<open>print\<close>) is not part of the model.
\<close>

type_synonym intent_file = "string \<times> string list"

definition intent_name_of :: "string \<Rightarrow> string" where
  "intent_name_of intent_file = remove_all ''.txt'' (basename intent_file)"

definition keywords_of :: "string list \<Rightarrow> string set" where
  "keywords_of f = set (map strip (filter (\<lambda>line. strip line \<noteq> []) f))"

definition message_words_of :: "string \<Rightarrow> string set" where
  "message_words_of message = set (split (lower message))"

definition score_of :: "string \<Rightarrow> intent_file \<Rightarrow> nat" where
  "score_of message file = card (message_words_of message \<inter> keywords_of (snd file))"

text \<open>
  The dictionary \<open>scores\<close> keeps its keys in insertion order; assigning to a key that is
  present replaces the value in place.
\<close>

fun score_files :: "string \<Rightarrow> intent_file list \<Rightarrow> (string \<times> nat) list \<Rightarrow> (string \<times> nat) list" where
  "score_files message [] scores = scores"
| "score_files message (file # files) scores =
     (let intent_name = intent_name_of (fst file);
          score = score_of message file
      in score_files message files
           (if score > 0 then AList.update intent_name score scores else scores))"

text \<open>
  \<open>max(scores, key=...)\<close> over a non-empty dictionary: the first key, in iteration
  order, whose value is the largest.
\<close>

fun max_key :: "(string \<times> nat) \<Rightarrow> (string \<times> nat) list \<Rightarrow> string" where
  "max_key best [] = fst best"
| "max_key best (kv # rest) = max_key (if snd best < snd kv then kv else best) rest"

definition detect_intent :: "intent_file list \<Rightarrow> string \<Rightarrow> string" where
  "detect_intent intents message =
     (case score_files message intents [] of
        [] \<Rightarrow> ''unknown''
      | kv # rest \<Rightarrow> max_key kv rest)"

section \<open>Values, dictionaries and errors\<close>

text \<open>
  The dictionaries of the program hold strings, booleans and integers under string keys,
  in insertion order: association lists, read with \<open>map_of\<close>, written with
  \<open>AList.update\<close> and \<open>AList.delete\<close>.
\<close>

datatype pyval = PStr string | PBool bool | PInt int

type_synonym pydict = "(string \<times> pyval) list"

text \<open>
  What can be raised: a classifier's \<open>predict\<close> failing, and \<open>d[k]\<close> on a missing key.
  An exception leaves the handler before it writes to the session store.
\<close>

datatype error = CapabilityFailure | KeyError string

definition and_then :: "error + 'a \<Rightarrow> ('a \<Rightarrow> error + 'b) \<Rightarrow> error + 'b" where
  "and_then m f = (case m of Inl e \<Rightarrow> Inl e | Inr x \<Rightarrow> f x)"

definition getitem :: "pydict \<Rightarrow> string \<Rightarrow> error + pyval" where
  "getitem d k = (case map_of d k of None \<Rightarrow> Inl (KeyError k) | Some v \<Rightarrow> Inr v)"

text \<open>Truth value of \<open>d.get(k)\<close>: a missing key gives \<open>None\<close>, which is false.\<close>

fun truthy :: "pyval \<Rightarrow> bool" where
  "truthy (PStr s) = (s \<noteq> [])"
| "truthy (PBool b) = b"
| "truthy (PInt i) = (i \<noteq> 0)"

definition get_truthy :: "pydict \<Rightarrow> string \<Rightarrow> bool" where
  "get_truthy d k = (case map_of d k of None \<Rightarrow> False | Some v \<Rightarrow> truthy v)"

text \<open>A value inside an f-string.\<close>

fun py_str :: "pyval \<Rightarrow> string" where
  "py_str (PStr s) = s"
| "py_str (PBool b) = (if b then ''True'' else ''False'')"
| "py_str (PInt i) = str_int i"

section \<open>The analysis pipeline\<close>

text \<open>
  The two classifiers are loaded from model files that are not part of the source; they
  are parameters here. \<open>coherence_classifier text\<close> stands for
  \<open>bool(coherence_classifier.predict([text])[0])\<close> and \<open>category_classifier text\<close> for
  \<open>category_classifier.predict([text])[0]\<close>; either may fail.
\<close>

type_synonym 'a capability = "string \<Rightarrow> error + 'a"

record ComplaintData =
  name :: string
  contact :: string
  category :: string
  title :: string
  description :: string
  location :: string

definition high_priority_keywords :: "string list" where
  "high_priority_keywords =
     [''urgent'', ''dangerous'', ''hazard'', ''fire'', ''leak'', ''exposed'', ''accident'',
      ''unsafe'', ''sewage'', ''overflow'']"

definition complaint_text_of :: "ComplaintData \<Rightarrow> string" where
  "complaint_text_of complaint = title complaint @ '' '' @ description complaint"

definition analyze_complaint_web ::
  "bool capability \<Rightarrow> string capability \<Rightarrow> ComplaintData \<Rightarrow> error + pydict" where
  "analyze_complaint_web coherence_classifier category_classifier complaint =
     (let complaint_text = complaint_text_of complaint;
          text_lower = lower complaint_text
      in and_then (coherence_classifier complaint_text) (\<lambda>is_valid.
         if \<not> is_valid
         then Inr [(''isComplaintValid'', PBool False),
                   (''reasoning'', PStr ''Invalid complaint text.'')]
         else and_then (category_classifier complaint_text) (\<lambda>predicted_category.
           let priority =
                 (if list_ex (\<lambda>keyword. str_in keyword text_lower) high_priority_keywords
                  then ''High'' else ''Medium'');
               resolution_days = 5
           in Inr [(''priority'', PStr priority),
                   (''isComplaintValid'', PBool True),
                   (''reasoning'', PStr []),
                   (''suggestedCategory'', PStr predicted_category),
                   (''estimatedResolutionDays'', PInt resolution_days)])))"

section \<open>The WhatsApp webhook\<close>

record WhatsAppMessage =
  From :: string
  Body :: string

type_synonym session = pydict

type_synonym conversations = "(string \<times> session) list"

definition start_complaint_flow ::
  "bool capability \<Rightarrow> string capability \<Rightarrow> string \<Rightarrow> string \<Rightarrow> error + (session \<times> string)" where
  "start_complaint_flow coherence_classifier category_classifier user_phone complaint_desc =
     and_then (analyze_complaint_web coherence_classifier category_classifier
                 \<lparr>name = ''WhatsApp User'', contact = user_phone, category = ''unknown'',
                  title = ''WhatsApp Complaint'', description = complaint_desc,
                  location = ''unknown''\<rparr>) (\<lambda>analysis_result.
     let session0 = [(''stage'', PStr ''get_location''), (''description'', PStr complaint_desc)]
     in and_then
          (if analysis_result \<noteq> [] \<and> get_truthy analysis_result ''isComplaintValid''
           then and_then (getitem analysis_result ''suggestedCategory'') (\<lambda>c.
                and_then (getitem analysis_result ''priority'') (\<lambda>p.
                Inr (AList.update ''priority'' p (AList.update ''category'' c session0))))
           else Inr (AList.update ''priority'' (PStr ''medium'')
                       (AList.update ''category'' (PStr ''unknown'') session0))) (\<lambda>session.
        and_then (getitem session ''category'') (\<lambda>c.
        and_then (getitem session ''priority'') (\<lambda>p.
        Inr (session,
             ''Got it. I've categorized this as a '' @ [CHR 0x27] @ py_str c @ [CHR 0x27]
               @ '' issue with '' @ [CHR 0x27] @ py_str p @ [CHR 0x27]
               @ '' priority. What is the location of this issue?'')))))"

definition check_status_prompt :: string where
  "check_status_prompt = ''To check the status of a complaint, please provide your Complaint ID.''"

definition welcome_prompt :: string where
  "welcome_prompt =
     ''Welcome to the Smart Grievance System! How can I help you today? You can say 'file a complaint' or 'check status'.''"

definition clarify_prompt :: string where
  "clarify_prompt =
     ''I'm sorry, I didn't understand. You can say 'file a complaint' or 'check status'.''"

definition password_prompt :: string where
  "password_prompt =
     ''Thank you. Finally, please set a simple password to secure this complaint.''"

definition filed_reply :: "string \<Rightarrow> string" where
  "filed_reply complaint_id =
     ''Excellent! Your complaint has been filed. Your Complaint ID is: *'' @ complaint_id
       @ ''*. Please save this ID.''"

definition status_reply :: "string \<Rightarrow> string" where
  "status_reply complaint_id_from_user =
     ''Checking status for complaint '' @ complaint_id_from_user
       @ ''... (This feature is in development).''"

definition user_phone_of :: "WhatsAppMessage \<Rightarrow> string" where
  "user_phone_of message = last (split_on CHR '':'' (From message))"

text \<open>
  \<open>whatsapp_conversations.get(user_phone)\<close>, read for its truth value first: a missing
  entry (\<open>None\<close>) and an empty dictionary both count as no session.
\<close>

definition session_of :: "conversations \<Rightarrow> string \<Rightarrow> session" where
  "session_of whatsapp_conversations user_phone =
     (case map_of whatsapp_conversations user_phone of None \<Rightarrow> [] | Some s \<Rightarrow> s)"

text \<open>
  One invocation of the webhook. \<open>intents\<close> is what \<open>detect_intent\<close> reads from the
  directory during this invocation and \<open>drawn\<close> the value that
  \<open>random.randint(1000, 9999)\<close> returns to it; the result is the reply and the session
  store afterwards. The complaint that the last step completes (the session with
  \<open>password\<close> and \<open>id\<close>) is only printed. A stage the chain does not know leaves the reply empty and stores the
  session as it was.
\<close>

definition whatsapp_bot ::
  "intent_file list \<Rightarrow> bool capability \<Rightarrow> string capability \<Rightarrow> int \<Rightarrow> conversations
     \<Rightarrow> WhatsAppMessage \<Rightarrow> error + (string \<times> conversations)" where
  "whatsapp_bot intents coherence_classifier category_classifier drawn
       whatsapp_conversations message =
     (let user_phone = user_phone_of message;
          user_message = strip (Body message);
          session = session_of whatsapp_conversations user_phone;
          flow = and_then
                   (start_complaint_flow coherence_classifier category_classifier
                      user_phone user_message)
                   (\<lambda>(new_session, response_text).
                      Inr (response_text,
                           AList.update user_phone new_session whatsapp_conversations))
      in if session = []
         then (let intent = detect_intent intents user_message
               in if intent = ''file_complaint'' then flow
                  else if intent = ''check_status''
                  then Inr (check_status_prompt,
                            AList.update user_phone [(''stage'', PStr ''get_status_id'')]
                              whatsapp_conversations)
                  else Inr (welcome_prompt,
                            AList.update user_phone [(''stage'', PStr ''greeting'')]
                              whatsapp_conversations))
         else (let current_stage = map_of session ''stage''
               in if current_stage = Some (PStr ''greeting'')
                  then (let intent = detect_intent intents user_message
                        in if intent = ''file_complaint'' then flow
                           else if intent = ''check_status''
                           then Inr (check_status_prompt,
                                     AList.update user_phone
                                       (AList.update ''stage'' (PStr ''get_status_id'') session)
                                       whatsapp_conversations)
                           else Inr (clarify_prompt,
                                     AList.update user_phone session whatsapp_conversations))
                  else if current_stage = Some (PStr ''get_description'') then flow
                  else if current_stage = Some (PStr ''get_location'')
                  then Inr (password_prompt,
                            AList.update user_phone
                              (AList.update ''stage'' (PStr ''get_password'')
                                 (AList.update ''location'' (PStr user_message) session))
                              whatsapp_conversations)
                  else if current_stage = Some (PStr ''get_password'')
                  then (let complaint_id = ''WACMP-'' @ str_int drawn
                        in Inr (filed_reply complaint_id,
                                AList.delete user_phone whatsapp_conversations))
                  else if current_stage = Some (PStr ''get_status_id'')
                  then Inr (status_reply user_message,
                            AList.delete user_phone whatsapp_conversations)
                  else Inr ([], AList.update user_phone session whatsapp_conversations)))"

section \<open>Serving requests, and what the store may hold\<close>

text \<open>
  The process starts with an empty store and handles one request after the other. A
  request carries what its invocation reads from the directory, the number drawn for it
  and the message. An invocation that raises leaves the store as it was.
\<close>

type_synonym request = "intent_file list \<times> int \<times> WhatsAppMessage"

fun serve :: "bool capability \<Rightarrow> string capability \<Rightarrow> conversations \<Rightarrow> request list
                \<Rightarrow> conversations" where
  "serve coherence_classifier category_classifier convs [] = convs"
| "serve coherence_classifier category_classifier convs ((intents, drawn, message) # requests) =
     (case whatsapp_bot intents coherence_classifier category_classifier drawn convs message of
        Inl e \<Rightarrow> serve coherence_classifier category_classifier convs requests
      | Inr (reply, convs') \<Rightarrow> serve coherence_classifier category_classifier convs' requests)"

text \<open>
  The sessions an invocation can write over the session \<open>old\<close> it found: the one the
  complaint flow builds, the two opening sessions, and \<open>old\<close> moved on, kept at
  \<open>greeting\<close>, or left alone under a stage the chain does not know.
\<close>

definition written_over :: "session \<Rightarrow> session \<Rightarrow> bool" where
  "written_over old s' \<longleftrightarrow>
     (\<exists>d c p. s' = [(''stage'', PStr ''get_location''), (''description'', PStr d),
                     (''category'', PStr c), (''priority'', PStr p)])
   \<or> s' = [(''stage'', PStr ''get_status_id'')]
   \<or> s' = [(''stage'', PStr ''greeting'')]
   \<or> (map_of old ''stage'' = Some (PStr ''greeting'')
        \<and> (s' = AList.update ''stage'' (PStr ''get_status_id'') old \<or> s' = old))
   \<or> (map_of old ''stage'' = Some (PStr ''get_location'')
        \<and> (\<exists>l. s' = AList.update ''stage'' (PStr ''get_password'')
                      (AList.update ''location'' (PStr l) old)))
   \<or> (s' = old \<and> s' \<noteq> []
        \<and> map_of s' ''stage'' \<notin> {Some (PStr ''greeting''), Some (PStr ''get_description''),
              Some (PStr ''get_location''), Some (PStr ''get_password''),
              Some (PStr ''get_status_id'')})"

text \<open>
  The fields a stage goes with: the complaint fields are all the keys of a session but
  \<open>stage\<close>.
\<close>

definition complaint_fields :: "string set" where
  "complaint_fields =
     {''description'', ''category'', ''priority'', ''location'', ''password'', ''id''}"

definition session_fields_ok :: "session \<Rightarrow> bool" where
  "session_fields_ok s \<longleftrightarrow>
     (map_of s ''stage'' = Some (PStr ''get_location'') \<longrightarrow>
        {''description'', ''category'', ''priority''} \<subseteq> fst ` set s)
   \<and> (map_of s ''stage'' = Some (PStr ''get_password'') \<longrightarrow>
        {''description'', ''category'', ''priority'', ''location''} \<subseteq> fst ` set s)
   \<and> (map_of s ''stage'' = Some (PStr ''greeting'')
        \<or> map_of s ''stage'' = Some (PStr ''get_status_id'') \<longrightarrow>
        fst ` set s \<inter> complaint_fields = {})"

definition store_fields_ok :: "conversations \<Rightarrow> bool" where
  "store_fields_ok convs \<longleftrightarrow> (\<forall>s \<in> snd ` set convs. session_fields_ok s)"

definition stored_stages :: "pyval option set" where
  "stored_stages =
     {Some (PStr ''greeting''), Some (PStr ''get_location''), Some (PStr ''get_password''),
      Some (PStr ''get_status_id'')}"

definition store_stages_ok :: "conversations \<Rightarrow> bool" where
  "store_stages_ok convs \<longleftrightarrow> (\<forall>s \<in> snd ` set convs. map_of s ''stage'' \<in> stored_stages)"

section \<open>Example inputs\<close>

text \<open>
  A directory with two keyword files, a first message with the intent \<open>file_complaint\<close>
  and the complaint the web form sends for the gas leak.
\<close>

definition example_intents :: "intent_file list" where
  "example_intents =
     [(''intents/file_complaint.txt'',
         [''complaint'' @ [CHR 0x0A], ''file'' @ [CHR 0x0A], [CHR 0x0A], ''report'']),
      (''intents/check_status.txt'', [''status'' @ [CHR 0x0A], ''check'' @ [CHR 0x0A]])]"

definition example_message :: WhatsAppMessage where
  "example_message =
     \<lparr>From = ''whatsapp:+911234567890'',
      Body = '' I want to file a Complaint about a broken pipe ''\<rparr>"

definition example_greeting :: WhatsAppMessage where
  "example_greeting = \<lparr>From = ''whatsapp:+911234567890'', Body = ''hello there''\<rparr>"

definition example_location_message :: WhatsAppMessage where
  "example_location_message = \<lparr>From = ''whatsapp:+911234567890'', Body = ''12 Lake Road''\<rparr>"

definition example_password_message :: WhatsAppMessage where
  "example_password_message = \<lparr>From = ''whatsapp:+911234567890'', Body = ''tulip''\<rparr>"

text \<open>The same directory after \<open>file_complaint.txt\<close> was cut down to one keyword.\<close>

definition example_intents_edited :: "intent_file list" where
  "example_intents_edited =
     [(''intents/file_complaint.txt'', [''report'']),
      (''intents/check_status.txt'', [''status'' @ [CHR 0x0A], ''check'' @ [CHR 0x0A]])]"

text \<open>The session and the store after \<open>example_message\<close>, judged valid and labelled \<open>Water\<close>.\<close>

definition example_session :: session where
  "example_session =
     [(''stage'', PStr ''get_location''),
      (''description'', PStr ''I want to file a Complaint about a broken pipe''),
      (''category'', PStr ''Water''), (''priority'', PStr ''Medium'')]"

definition example_store :: conversations where
  "example_store = [(''+911234567890'', example_session)]"

text \<open>The same keyword files written differently: other order, padding, a repeated line.\<close>

definition example_intents_rewritten :: "intent_file list" where
  "example_intents_rewritten =
     [(''intents/file_complaint.txt'',
         [''report'' @ [CHR 0x0A], ''  file '' @ [CHR 0x0A], ''complaint'' @ [CHR 0x0A],
          ''file'']),
      (''intents/check_status.txt'', [''check'' @ [CHR 0x0A], ''status''])]"


definition example_complaint :: ComplaintData where
  "example_complaint =
     \<lparr>name = ''A. Citizen'', contact = ''+911234567890'', category = ''unknown'',
      title = ''There is a gas leak near my house,'', description = ''very unsafe'',
      location = ''unknown''\<rparr>"

section \<open>Evaluating the examples\<close>

lemma example_message_intent:
  "detect_intent example_intents (strip (Body example_message)) = ''file_complaint''"
  by code_simp

lemma example_greeting_intent:
  "detect_intent example_intents (strip (Body example_greeting)) = ''unknown''"
  by code_simp

lemma example_first_step:
  "whatsapp_bot example_intents (\<lambda>t. Inr True) (\<lambda>t. Inr ''Water'') 0 [] example_message
     = Inr (''Got it. I've categorized this as a 'Water' issue with 'Medium' priority. What is the location of this issue?'',
            example_store)"
  by code_simp

lemma example_message_phone: "user_phone_of example_message = ''+911234567890''"
  by (simp add: example_message_def user_phone_of_def split_on_def)

lemma example_greeting_phone: "user_phone_of example_greeting = ''+911234567890''"
  by (simp add: example_greeting_def user_phone_of_def split_on_def)

lemma lower_gas_leak:
  "lower ''There is a gas leak near my house, very unsafe''
     = ''there is a gas leak near my house, very unsafe''"
  by (simp add: lower_def lower_char_def)

section \<open>The analysis pipeline: validity gate, priority, resolution time\<close>

text \<open>
  C2. When the validity capability returns false on the combined text, \<open>analyze\<close> returns
  the dictionary with \<open>isComplaintValid\<close> false and a reasoning, and with no
  \<open>suggestedCategory\<close>, no \<open>priority\<close> and no \<open>estimatedResolutionDays\<close>. The category
  capability is not consulted: the result is the same whatever it is, also when it would
  fail on that text.
\<close>

theorem analyze_invalid_short_circuit:
  assumes "coherence_classifier (title complaint @ '' '' @ description complaint) = Inr False"
  shows "\<exists>res. analyze_complaint_web coherence_classifier category_classifier complaint = Inr res
           \<and> res = [(''isComplaintValid'', PBool False),
                    (''reasoning'', PStr ''Invalid complaint text.'')]
           \<and> map_of res ''isComplaintValid'' = Some (PBool False)
           \<and> map_of res ''suggestedCategory'' = None
           \<and> map_of res ''priority'' = None
           \<and> map_of res ''estimatedResolutionDays'' = None
           \<and> analyze_complaint_web coherence_classifier (\<lambda>text. Inl CapabilityFailure) complaint
                = Inr res"
  using assms by (simp add: analyze_complaint_web_def complaint_text_of_def and_then_def)

theorem analyze_invalid_short_circuit_witness:
  "\<exists>res. analyze_complaint_web (\<lambda>text. Inr False) (\<lambda>text. Inr ''Gas'') example_complaint
            = Inr res
         \<and> map_of res ''isComplaintValid'' = Some (PBool False)
         \<and> map_of res ''suggestedCategory'' = None
         \<and> analyze_complaint_web (\<lambda>text. Inr False) (\<lambda>text. Inl CapabilityFailure)
              example_complaint = Inr res"
  using analyze_invalid_short_circuit
          [of "\<lambda>text. Inr False" example_complaint "\<lambda>text. Inr ''Gas''"]
  by simp

text \<open>
  C3. For a text judged valid, whatever label the category capability returns, the
  priority is \<open>High\<close> exactly when the lower-cased text \<open>title + " " + description\<close>
  contains one of the ten severity keywords as a substring, and \<open>Medium\<close> otherwise.
\<close>

theorem analyze_priority:
  assumes "coherence_classifier (title complaint @ '' '' @ description complaint) = Inr True"
    and "category_classifier (title complaint @ '' '' @ description complaint) = Inr label"
  shows "\<exists>res. analyze_complaint_web coherence_classifier category_classifier complaint = Inr res
           \<and> map_of res ''priority'' =
               Some (PStr (if \<exists>keyword \<in> {''urgent'', ''dangerous'', ''hazard'', ''fire'', ''leak'',
                                   ''exposed'', ''accident'', ''unsafe'', ''sewage'', ''overflow''}.
                                sublist keyword
                                  (lower (title complaint @ '' '' @ description complaint))
                           then ''High'' else ''Medium''))"
  using assms
  by (simp add: analyze_complaint_web_def complaint_text_of_def and_then_def Let_def
      high_priority_keywords_def str_in_def)

theorem analyze_priority_witness:
  "\<exists>res. analyze_complaint_web (\<lambda>text. Inr True) (\<lambda>text. Inr ''Gas'') example_complaint
            = Inr res
         \<and> map_of res ''priority'' =
             Some (PStr (if \<exists>keyword \<in> {''urgent'', ''dangerous'', ''hazard'', ''fire'', ''leak'',
                                 ''exposed'', ''accident'', ''unsafe'', ''sewage'', ''overflow''}.
                              sublist keyword
                                (lower (title example_complaint @ '' ''
                                          @ description example_complaint))
                         then ''High'' else ''Medium''))"
  using analyze_priority
          [of "\<lambda>text. Inr True" example_complaint "\<lambda>text. Inr ''Gas''" "''Gas''"]
  by simp

text \<open>
  C8. For a text judged valid, \<open>estimatedResolutionDays\<close> is 5; and when the text is
  "There is a gas leak near my house, very unsafe", the priority is \<open>High\<close> as well.
\<close>

theorem analyze_resolution_days:
  assumes "coherence_classifier (title complaint @ '' '' @ description complaint) = Inr True"
    and "category_classifier (title complaint @ '' '' @ description complaint) = Inr label"
  shows "\<exists>res. analyze_complaint_web coherence_classifier category_classifier complaint = Inr res
           \<and> map_of res ''estimatedResolutionDays'' = Some (PInt 5)
           \<and> (title complaint @ '' '' @ description complaint
                 = ''There is a gas leak near my house, very unsafe''
               \<longrightarrow> map_of res ''priority'' = Some (PStr ''High''))"
proof -
  have leak: "sublist ''leak'' ''there is a gas leak near my house, very unsafe''"
    by code_simp
  show ?thesis
    using assms leak
    by (auto simp add: analyze_complaint_web_def complaint_text_of_def and_then_def Let_def
        high_priority_keywords_def str_in_def lower_gas_leak)
qed

theorem analyze_resolution_days_witness:
  "\<exists>res. analyze_complaint_web (\<lambda>text. Inr True) (\<lambda>text. Inr ''Gas'') example_complaint
            = Inr res
         \<and> map_of res ''estimatedResolutionDays'' = Some (PInt 5)
         \<and> map_of res ''priority'' = Some (PStr ''High'')"
  using analyze_resolution_days
          [of "\<lambda>text. Inr True" example_complaint "\<lambda>text. Inr ''Gas''" "''Gas''"]
  by (simp add: example_complaint_def)

section \<open>Intent detection: the scores and the intent returned\<close>













section \<open>Intent detection: what the result depends on\<close>

text \<open>
  C5, counterexample. Nothing is loaded at startup: the keyword files are read by every
  call, so the result follows the directory as it is at the time of the call. The same
  message gets \<open>file_complaint\<close> while the directory is \<open>example_intents\<close> and
  \<open>unknown\<close> once \<open>file_complaint.txt\<close> has been edited.
\<close>

theorem detect_intent_rereads_directory:
  "detect_intent example_intents (strip (Body example_message)) = ''file_complaint''
   \<and> detect_intent example_intents_edited (strip (Body example_message)) = ''unknown''
   \<and> detect_intent example_intents (strip (Body example_message))
       \<noteq> detect_intent example_intents_edited (strip (Body example_message))"
  by code_simp

lemma score_files_index:
  assumes "map (\<lambda>f. (intent_name_of (fst f), keywords_of (snd f))) files
         = map (\<lambda>f. (intent_name_of (fst f), keywords_of (snd f))) files'"
  shows "score_files message files scores = score_files message files' scores"
  using assms
proof (induction files arbitrary: files' scores)
  case Nil
  then show ?case by simp
next
  case (Cons g files)
  then obtain g' rest where files': "files' = g' # rest"
    by (cases files') auto
  with Cons.prems have same: "intent_name_of (fst g) = intent_name_of (fst g')"
    "keywords_of (snd g) = keywords_of (snd g')"
    and tail: "map (\<lambda>f. (intent_name_of (fst f), keywords_of (snd f))) files
         = map (\<lambda>f. (intent_name_of (fst f), keywords_of (snd f))) rest"
    by simp_all
  have "score_of message g = score_of message g'"
    using same(2) by (simp add: score_of_def)
  with same(1) Cons.IH [OF tail] show ?case
    by (simp add: files' Let_def)
qed

text \<open>
  C5, amended. The intent returned is a function of the message and of the keyword index
  the call reads: two calls with the same message that read the same intent names with
  the same keyword sets, in the same order, return the same intent, however the files
  are written.
\<close>

theorem detect_intent_depends_on_files_read:
  assumes "map (\<lambda>f. (intent_name_of (fst f), keywords_of (snd f))) intents
         = map (\<lambda>f. (intent_name_of (fst f), keywords_of (snd f))) intents'"
  shows "detect_intent intents message = detect_intent intents' message"
  by (simp add: detect_intent_def score_files_index [OF assms])

lemma example_intents_same_index:
  "map (\<lambda>f. (intent_name_of (fst f), keywords_of (snd f))) example_intents
     = map (\<lambda>f. (intent_name_of (fst f), keywords_of (snd f))) example_intents_rewritten"
  by code_simp

theorem detect_intent_depends_on_files_read_witness:
  "example_intents \<noteq> example_intents_rewritten
   \<and> detect_intent example_intents (strip (Body example_message))
       = detect_intent example_intents_rewritten (strip (Body example_message))"
  using detect_intent_depends_on_files_read [OF example_intents_same_index]
  by (simp add: example_intents_def example_intents_rewritten_def)

section \<open>Decimal rendering of the drawn number\<close>

lemma digit_char_digit: "d < 10 \<Longrightarrow> digit_char d \<in> set ''0123456789''"
  unfolding digit_char_def by (rule nth_mem) simp

lemma str_nat_small: "n < 10 \<Longrightarrow> str_nat n = [digit_char n]"
  by (simp add: str_nat.simps [of n])

lemma str_nat_step: "10 \<le> n \<Longrightarrow> str_nat n = str_nat (n div 10) @ [digit_char (n mod 10)]"
  by (simp add: str_nat.simps [of n])

lemma str_nat_four:
  assumes "1000 \<le> n" and "n \<le> 9999"
  shows "str_nat n = [digit_char (n div 1000), digit_char (n div 100 mod 10),
                      digit_char (n div 10 mod 10), digit_char (n mod 10)]"
proof -
  have e: "n div 10 div 10 = n div 100" "n div 100 div 10 = n div 1000"
    by (simp_all add: div_mult2_eq [symmetric])
  have a: "str_nat n = str_nat (n div 10) @ [digit_char (n mod 10)]"
    using assms by (intro str_nat_step) simp
  have b: "str_nat (n div 10) = str_nat (n div 100) @ [digit_char (n div 10 mod 10)]"
    using assms str_nat_step [of "n div 10"] by (simp add: e)
  have c: "str_nat (n div 100) = str_nat (n div 1000) @ [digit_char (n div 100 mod 10)]"
    using assms str_nat_step [of "n div 100"] by (simp add: e)
  have d: "str_nat (n div 1000) = [digit_char (n div 1000)]"
    using assms by (intro str_nat_small) simp
  show ?thesis
    by (simp add: a b c d)
qed

lemma str_int_four_digits:
  assumes "1000 \<le> r" and "r \<le> 9999"
  shows "length (str_int r) = 4 \<and> set (str_int r) \<subseteq> set ''0123456789''"
proof -
  have n: "1000 \<le> nat r" "nat r \<le> 9999"
    using assms by simp_all
  have lt: "nat r div 1000 < 10" "nat r div 100 mod 10 < 10" "nat r div 10 mod 10 < 10"
    "nat r mod 10 < 10"
    using n by simp_all
  have "str_int r = str_nat (nat r)"
    using assms by (simp add: str_int_def)
  then show ?thesis
    using digit_char_digit [OF lt(1)] digit_char_digit [OF lt(2)] digit_char_digit [OF lt(3)]
      digit_char_digit [OF lt(4)]
    by (simp add: str_nat_four [OF n])
qed

section \<open>What the complaint flow stores\<close>

lemma analyze_cases:
  assumes "analyze_complaint_web coh cat c = Inr res"
  shows "res = [(''isComplaintValid'', PBool False),
                (''reasoning'', PStr ''Invalid complaint text.'')]
       \<or> (\<exists>p l. res = [(''priority'', PStr p), (''isComplaintValid'', PBool True),
                        (''reasoning'', PStr []), (''suggestedCategory'', PStr l),
                        (''estimatedResolutionDays'', PInt 5)])"
  using assms
  by (auto simp add: analyze_complaint_web_def and_then_def Let_def split: sum.splits if_splits)

lemma start_complaint_flow_returns:
  assumes "analyze_complaint_web coh cat
             \<lparr>name = ''WhatsApp User'', contact = phone, category = ''unknown'',
              title = ''WhatsApp Complaint'', description = d, location = ''unknown''\<rparr>
           = Inr res"
  shows "\<exists>c p reply. start_complaint_flow coh cat phone d
           = Inr ([(''stage'', PStr ''get_location''), (''description'', PStr d),
                   (''category'', PStr c), (''priority'', PStr p)], reply)"
  using analyze_cases [OF assms] assms
  by (auto simp add: start_complaint_flow_def and_then_def get_truthy_def getitem_def)

lemma start_complaint_flow_session:
  assumes "start_complaint_flow coh cat phone d = Inr (s, reply)"
  shows "\<exists>c p. s = [(''stage'', PStr ''get_location''), (''description'', PStr d),
                     (''category'', PStr c), (''priority'', PStr p)]"
proof -
  obtain res where res: "analyze_complaint_web coh cat
             \<lparr>name = ''WhatsApp User'', contact = phone, category = ''unknown'',
              title = ''WhatsApp Complaint'', description = d, location = ''unknown''\<rparr>
           = Inr res"
    using assms by (auto simp add: start_complaint_flow_def and_then_def split: sum.splits)
  from start_complaint_flow_returns [OF res] assms show ?thesis
    by auto
qed

text \<open>Every way an invocation can leave the store.\<close>

lemma whatsapp_bot_cases:
  assumes "whatsapp_bot intents coh cat drawn convs m = Inr (reply, convs')"
  shows "convs' = AList.delete (user_phone_of m) convs
       \<or> (\<exists>s'. convs' = AList.update (user_phone_of m) s' convs
                \<and> written_over (session_of convs (user_phone_of m)) s')"
  using assms
  unfolding whatsapp_bot_def and_then_def Let_def written_over_def
  by (auto split: if_splits sum.splits dest!: start_complaint_flow_session)

lemma session_of_stored:
  "session_of convs phone \<noteq> [] \<Longrightarrow> session_of convs phone \<in> snd ` set convs"
  by (auto simp add: session_of_def split: option.splits dest!: map_of_SomeD intro: rev_image_eqI)

lemma set_update_subset: "set (AList.update k v al) \<subseteq> insert (k, v) (set al)"
  by (induction al) auto

lemma sessions_after_update:
  "s \<in> snd ` set (AList.update k v al) \<Longrightarrow> s = v \<or> s \<in> snd ` set al"
  using set_update_subset [of k v al] by force

lemma sessions_after_delete:
  "s \<in> snd ` set (AList.delete k al) \<Longrightarrow> s \<in> snd ` set al"
  by (induction al) (auto split: if_splits)

lemma all_sessions_after_delete:
  assumes "\<forall>s \<in> snd ` set al. P s"
  shows "\<forall>s \<in> snd ` set (AList.delete k al). P s"
proof
  fix s
  assume "s \<in> snd ` set (AList.delete k al)"
  then have "s \<in> snd ` set al"
    by (rule sessions_after_delete)
  with assms show "P s" ..
qed

lemma all_sessions_after_update:
  assumes "\<forall>s \<in> snd ` set al. P s" and "P v"
  shows "\<forall>s \<in> snd ` set (AList.update k v al). P s"
proof
  fix s
  assume "s \<in> snd ` set (AList.update k v al)"
  then have "s = v \<or> s \<in> snd ` set al"
    by (rule sessions_after_update)
  then show "P s"
  proof
    assume "s = v"
    with assms(2) show ?thesis by simp
  next
    assume "s \<in> snd ` set al"
    with assms(1) show ?thesis ..
  qed
qed

section \<open>The dialogue\<close>

text \<open>
  C10. When the validity capability judges the message invalid, the complaint flow goes on
  all the same: the session goes to \<open>get_location\<close> with category \<open>unknown\<close> and priority
  \<open>medium\<close>, in lower case, and the reply quotes both. Shown for the flow itself and for
  the webhook called by a user without a session whose message has the intent
  \<open>file_complaint\<close>.
\<close>

theorem invalid_text_still_advances:
  assumes invalid:
      "coherence_classifier (''WhatsApp Complaint '' @ strip (Body message)) = Inr False"
    and fresh: "map_of whatsapp_conversations (user_phone_of message) = None"
    and intent: "detect_intent intents (strip (Body message)) = ''file_complaint''"
  shows "start_complaint_flow coherence_classifier category_classifier
             (user_phone_of message) (strip (Body message))
           = Inr ([(''stage'', PStr ''get_location''),
                   (''description'', PStr (strip (Body message))),
                   (''category'', PStr ''unknown''),
                   (''priority'', PStr ''medium'')],
                  ''Got it. I've categorized this as a 'unknown' issue with 'medium' priority. What is the location of this issue?'')
       \<and> whatsapp_bot intents coherence_classifier category_classifier drawn
             whatsapp_conversations message
           = Inr (''Got it. I've categorized this as a 'unknown' issue with 'medium' priority. What is the location of this issue?'',
                  AList.update (user_phone_of message)
                    [(''stage'', PStr ''get_location''),
                     (''description'', PStr (strip (Body message))),
                     (''category'', PStr ''unknown''),
                     (''priority'', PStr ''medium'')]
                    whatsapp_conversations)"
proof -
  have flow: "start_complaint_flow coherence_classifier category_classifier
             (user_phone_of message) (strip (Body message))
           = Inr ([(''stage'', PStr ''get_location''),
                   (''description'', PStr (strip (Body message))),
                   (''category'', PStr ''unknown''),
                   (''priority'', PStr ''medium'')],
                  ''Got it. I've categorized this as a 'unknown' issue with 'medium' priority. What is the location of this issue?'')"
    using invalid
    by (simp add: start_complaint_flow_def analyze_complaint_web_def complaint_text_of_def
        and_then_def get_truthy_def getitem_def)
  show ?thesis
    using fresh intent by (simp add: flow whatsapp_bot_def session_of_def and_then_def)
qed

theorem invalid_text_still_advances_witness:
  "whatsapp_bot example_intents (\<lambda>t. Inr False) (\<lambda>t. Inr ''Water'') 0 [] example_message
     = Inr (''Got it. I've categorized this as a 'unknown' issue with 'medium' priority. What is the location of this issue?'',
            AList.update (user_phone_of example_message)
              [(''stage'', PStr ''get_location''),
               (''description'', PStr (strip (Body example_message))),
               (''category'', PStr ''unknown''),
               (''priority'', PStr ''medium'')] [])"
proof -
  have invalid: "(\<lambda>t. Inr False :: error + bool)
                   (''WhatsApp Complaint '' @ strip (Body example_message)) = Inr False"
    by simp
  have fresh: "map_of ([] :: conversations) (user_phone_of example_message) = None"
    by simp
  from invalid_text_still_advances [OF invalid fresh example_message_intent]
  show ?thesis by blast
qed

text \<open>
  C7. A message with the intent \<open>unknown\<close>: a user without a session gets the welcome
  prompt and a session at \<open>greeting\<close>; a user whose session is at \<open>greeting\<close> gets the
  clarifying prompt and keeps the session as it is. Both invocations return a reply,
  whatever the classifiers do.
\<close>

theorem unknown_intent_fallback:
  assumes "detect_intent intents (strip (Body message)) = ''unknown''"
  shows "(map_of whatsapp_conversations (user_phone_of message) = None \<longrightarrow>
            whatsapp_bot intents coherence_classifier category_classifier drawn
                whatsapp_conversations message
              = Inr (''Welcome to the Smart Grievance System! How can I help you today? You can say 'file a complaint' or 'check status'.'',
                     AList.update (user_phone_of message) [(''stage'', PStr ''greeting'')]
                       whatsapp_conversations))
       \<and> (\<forall>s. map_of whatsapp_conversations (user_phone_of message) = Some s
               \<and> map_of s ''stage'' = Some (PStr ''greeting'') \<longrightarrow>
            whatsapp_bot intents coherence_classifier category_classifier drawn
                whatsapp_conversations message
              = Inr (''I'm sorry, I didn't understand. You can say 'file a complaint' or 'check status'.'',
                     AList.update (user_phone_of message) s whatsapp_conversations)
            \<and> map_of (AList.update (user_phone_of message) s whatsapp_conversations)
                 (user_phone_of message) = Some s)"
  using assms
  by (auto simp add: whatsapp_bot_def session_of_def Let_def welcome_prompt_def
      clarify_prompt_def update_conv')

theorem unknown_intent_fallback_witness:
  "whatsapp_bot example_intents (\<lambda>t. Inl CapabilityFailure) (\<lambda>t. Inl CapabilityFailure) 0
       [] example_greeting
     = Inr (''Welcome to the Smart Grievance System! How can I help you today? You can say 'file a complaint' or 'check status'.'',
            [(''+911234567890'', [(''stage'', PStr ''greeting'')])])
   \<and> whatsapp_bot example_intents (\<lambda>t. Inl CapabilityFailure) (\<lambda>t. Inl CapabilityFailure) 0
       [(''+911234567890'', [(''stage'', PStr ''greeting'')])] example_greeting
     = Inr (''I'm sorry, I didn't understand. You can say 'file a complaint' or 'check status'.'',
            [(''+911234567890'', [(''stage'', PStr ''greeting'')])])"
  using unknown_intent_fallback [OF example_greeting_intent,
          of "[]" "\<lambda>t. Inl CapabilityFailure" "\<lambda>t. Inl CapabilityFailure" 0]
        unknown_intent_fallback [OF example_greeting_intent,
          of "[(''+911234567890'', [(''stage'', PStr ''greeting'')])]"
             "\<lambda>t. Inl CapabilityFailure" "\<lambda>t. Inl CapabilityFailure" 0]
  by (simp add: example_greeting_phone)

text \<open>
  C1. A user without a session sends a message with the intent \<open>file_complaint\<close>, then a
  location, then a password. When the analysis of the first message returns and the number
  drawn for the third lies in 1000..9999, the three invocations return; the user's
  session is at \<open>get_location\<close> after the first, at \<open>get_password\<close> after the second and
  gone after the third, whose reply carries \<open>WACMP-\<close> followed by exactly four decimal
  digits.
\<close>

theorem complaint_flow_three_messages:
  assumes fresh: "map_of convs (user_phone_of m1) = None"
    and same2: "From m2 = From m1" and same3: "From m3 = From m1"
    and intent: "detect_intent intents1 (strip (Body m1)) = ''file_complaint''"
    and analysed: "analyze_complaint_web coh cat
             \<lparr>name = ''WhatsApp User'', contact = user_phone_of m1, category = ''unknown'',
              title = ''WhatsApp Complaint'', description = strip (Body m1),
              location = ''unknown''\<rparr> = Inr res"
    and drawn: "1000 \<le> drawn3" "drawn3 \<le> 9999"
  shows "\<exists>reply1 convs1 s1 reply2 convs2 s2 reply3 convs3 digits.
           whatsapp_bot intents1 coh cat drawn1 convs m1 = Inr (reply1, convs1)
         \<and> map_of convs1 (user_phone_of m1) = Some s1
         \<and> map_of s1 ''stage'' = Some (PStr ''get_location'')
         \<and> whatsapp_bot intents2 coh cat drawn2 convs1 m2 = Inr (reply2, convs2)
         \<and> map_of convs2 (user_phone_of m1) = Some s2
         \<and> map_of s2 ''stage'' = Some (PStr ''get_password'')
         \<and> whatsapp_bot intents3 coh cat drawn3 convs2 m3 = Inr (reply3, convs3)
         \<and> map_of convs3 (user_phone_of m1) = None
         \<and> reply3 = ''Excellent! Your complaint has been filed. Your Complaint ID is: *''
                      @ ''WACMP-'' @ digits @ ''*. Please save this ID.''
         \<and> length digits = 4 \<and> set digits \<subseteq> set ''0123456789''"
proof -
  let ?phone = "user_phone_of m1"
  have p2: "user_phone_of m2 = ?phone" and p3: "user_phone_of m3 = ?phone"
    using same2 same3 by (simp_all add: user_phone_of_def)
  obtain c p reply1 where flow: "start_complaint_flow coh cat ?phone (strip (Body m1))
           = Inr ([(''stage'', PStr ''get_location''), (''description'', PStr (strip (Body m1))),
                   (''category'', PStr c), (''priority'', PStr p)], reply1)"
    using start_complaint_flow_returns [OF analysed] by blast
  let ?s1 = "[(''stage'', PStr ''get_location''), (''description'', PStr (strip (Body m1))),
              (''category'', PStr c), (''priority'', PStr p)]"
  let ?convs1 = "AList.update ?phone ?s1 convs"
  have step1: "whatsapp_bot intents1 coh cat drawn1 convs m1 = Inr (reply1, ?convs1)"
    using fresh intent by (simp add: whatsapp_bot_def session_of_def flow and_then_def)
  have look1: "map_of ?convs1 ?phone = Some ?s1"
    by (simp add: update_conv')
  have stage1: "map_of ?s1 ''stage'' = Some (PStr ''get_location'')"
    by simp
  let ?s2 = "AList.update ''stage'' (PStr ''get_password'')
               (AList.update ''location'' (PStr (strip (Body m2))) ?s1)"
  let ?convs2 = "AList.update ?phone ?s2 ?convs1"
  have session1: "session_of ?convs1 ?phone = ?s1"
    by (simp add: session_of_def update_conv')
  have step2: "whatsapp_bot intents2 coh cat drawn2 ?convs1 m2 = Inr (password_prompt, ?convs2)"
    unfolding whatsapp_bot_def p2 Let_def session1 by simp
  have look2: "map_of ?convs2 ?phone = Some ?s2"
    by (simp add: update_conv')
  have stage2: "map_of ?s2 ''stage'' = Some (PStr ''get_password'')"
    by simp
  have session2: "session_of ?convs2 ?phone = ?s2"
    by (simp add: session_of_def update_conv')
  have ne2: "?s2 \<noteq> []"
    by simp
  let ?convs3 = "AList.delete ?phone ?convs2"
  have step3: "whatsapp_bot intents3 coh cat drawn3 ?convs2 m3
                 = Inr (filed_reply (''WACMP-'' @ str_int drawn3), ?convs3)"
    unfolding whatsapp_bot_def p3 Let_def session2 using stage2 ne2 by simp
  have look3: "map_of ?convs3 ?phone = None"
    by (simp add: delete_conv')
  have reply3: "filed_reply (''WACMP-'' @ str_int drawn3)
          = ''Excellent! Your complaint has been filed. Your Complaint ID is: *''
              @ ''WACMP-'' @ str_int drawn3 @ ''*. Please save this ID.''"
    by (simp add: filed_reply_def)
  from step1 look1 stage1 step2 look2 stage2 step3 look3 reply3 str_int_four_digits [OF drawn]
  show ?thesis by blast
qed

theorem complaint_flow_three_messages_witness:
  "\<exists>reply1 convs1 s1 reply2 convs2 s2 reply3 convs3 digits.
     whatsapp_bot example_intents (\<lambda>t. Inr True) (\<lambda>t. Inr ''Water'') 0 [] example_message
       = Inr (reply1, convs1)
   \<and> map_of convs1 (user_phone_of example_message) = Some s1
   \<and> map_of s1 ''stage'' = Some (PStr ''get_location'')
   \<and> whatsapp_bot example_intents (\<lambda>t. Inr True) (\<lambda>t. Inr ''Water'') 0 convs1
         example_location_message = Inr (reply2, convs2)
   \<and> map_of convs2 (user_phone_of example_message) = Some s2
   \<and> map_of s2 ''stage'' = Some (PStr ''get_password'')
   \<and> whatsapp_bot example_intents (\<lambda>t. Inr True) (\<lambda>t. Inr ''Water'') 4821 convs2
         example_password_message = Inr (reply3, convs3)
   \<and> map_of convs3 (user_phone_of example_message) = None
   \<and> reply3 = ''Excellent! Your complaint has been filed. Your Complaint ID is: *''
                @ ''WACMP-'' @ digits @ ''*. Please save this ID.''
   \<and> length digits = 4 \<and> set digits \<subseteq> set ''0123456789''"
proof -
  have fresh: "map_of ([] :: conversations) (user_phone_of example_message) = None"
    by simp
  have same2: "From example_location_message = From example_message"
    by (simp add: example_location_message_def example_message_def)
  have same3: "From example_password_message = From example_message"
    by (simp add: example_password_message_def example_message_def)
  obtain res where analysed:
    "analyze_complaint_web (\<lambda>t. Inr True) (\<lambda>t. Inr ''Water'')
       \<lparr>name = ''WhatsApp User'', contact = user_phone_of example_message,
        category = ''unknown'', title = ''WhatsApp Complaint'',
        description = strip (Body example_message), location = ''unknown''\<rparr> = Inr res"
    by (simp add: analyze_complaint_web_def and_then_def Let_def)
  have drawn: "(1000 :: int) \<le> 4821" "(4821 :: int) \<le> 9999"
    by simp_all
  from complaint_flow_three_messages
         [OF fresh same2 same3 example_message_intent analysed drawn,
          of 0 example_intents 0 example_intents]
  show ?thesis .
qed

section \<open>The stage of a stored session and its fields\<close>

lemma session_fields_ok_session_of:
  "store_fields_ok convs \<Longrightarrow> session_fields_ok (session_of convs phone)"
proof (cases "session_of convs phone = []")
  case True
  then show ?thesis by (simp add: session_fields_ok_def)
next
  case False
  assume "store_fields_ok convs"
  with session_of_stored [OF False] show ?thesis
    by (auto simp add: store_fields_ok_def)
qed

lemma session_fields_ok_written:
  assumes old: "session_fields_ok old" and s': "written_over old s'"
  shows "session_fields_ok s'"
  using s' unfolding written_over_def
proof (elim disjE conjE exE)
  fix d c p
  assume "s' = [(''stage'', PStr ''get_location''), (''description'', PStr d),
                (''category'', PStr c), (''priority'', PStr p)]"
  then show ?thesis by (simp add: session_fields_ok_def)
next
  assume "s' = [(''stage'', PStr ''get_status_id'')]"
  then show ?thesis by (simp add: session_fields_ok_def complaint_fields_def)
next
  assume "s' = [(''stage'', PStr ''greeting'')]"
  then show ?thesis by (simp add: session_fields_ok_def complaint_fields_def)
next
  assume "map_of old ''stage'' = Some (PStr ''greeting'')"
    and "s' = AList.update ''stage'' (PStr ''get_status_id'') old"
  with old show ?thesis
    by (simp add: session_fields_ok_def update_conv' dom_update complaint_fields_def)
next
  assume "s' = old"
  with old show ?thesis by simp
next
  fix l
  assume "map_of old ''stage'' = Some (PStr ''get_location'')"
    and "s' = AList.update ''stage'' (PStr ''get_password'')
                (AList.update ''location'' (PStr l) old)"
  with old show ?thesis
    by (auto simp add: session_fields_ok_def update_conv' dom_update)
next
  assume "s' = old"
  with old show ?thesis by simp
qed

text \<open>
  C6. An invocation that starts from a store in which every session has the fields of its
  stage ends in such a store: with \<open>get_location\<close> go \<open>description\<close>, \<open>category\<close> and
  \<open>priority\<close>, with \<open>get_password\<close> those and \<open>location\<close>, with \<open>greeting\<close> and
  \<open>get_status_id\<close> no complaint field. The empty store is such a store.
\<close>

theorem stage_determines_fields:
  assumes "store_fields_ok convs"
    and "whatsapp_bot intents coh cat drawn convs m = Inr (reply, convs')"
  shows "store_fields_ok convs' \<and> store_fields_ok []"
proof -
  have old: "session_fields_ok (session_of convs (user_phone_of m))"
    using assms(1) by (rule session_fields_ok_session_of)
  have all: "\<forall>s \<in> snd ` set convs. session_fields_ok s"
    using assms(1) by (simp only: store_fields_ok_def)
  from whatsapp_bot_cases [OF assms(2)] have "store_fields_ok convs'"
  proof
    assume del: "convs' = AList.delete (user_phone_of m) convs"
    show ?thesis
      unfolding store_fields_ok_def del using all by (rule all_sessions_after_delete)
  next
    assume "\<exists>s'. convs' = AList.update (user_phone_of m) s' convs
                \<and> written_over (session_of convs (user_phone_of m)) s'"
    then obtain s' where convs': "convs' = AList.update (user_phone_of m) s' convs"
      and s': "written_over (session_of convs (user_phone_of m)) s'"
      by blast
    have "session_fields_ok s'"
      using old s' by (rule session_fields_ok_written)
    with all show ?thesis
      unfolding store_fields_ok_def convs' by (rule all_sessions_after_update)
  qed
  moreover have "store_fields_ok []"
    by (simp add: store_fields_ok_def)
  ultimately show ?thesis ..
qed

section \<open>The stages that are ever stored\<close>

lemma stage_written:
  assumes old: "old \<noteq> [] \<longrightarrow> map_of old ''stage'' \<in> stored_stages"
    and s': "written_over old s'"
  shows "map_of s' ''stage'' \<in> stored_stages"
  using s' unfolding written_over_def
proof (elim disjE conjE exE)
  fix d c p
  assume "s' = [(''stage'', PStr ''get_location''), (''description'', PStr d),
                (''category'', PStr c), (''priority'', PStr p)]"
  then show ?thesis by (simp add: stored_stages_def)
next
  assume "s' = [(''stage'', PStr ''get_status_id'')]"
  then show ?thesis by (simp add: stored_stages_def)
next
  assume "s' = [(''stage'', PStr ''greeting'')]"
  then show ?thesis by (simp add: stored_stages_def)
next
  assume "s' = AList.update ''stage'' (PStr ''get_status_id'') old"
  then show ?thesis by (simp add: stored_stages_def update_conv')
next
  assume "map_of old ''stage'' = Some (PStr ''greeting'')" and "s' = old"
  then show ?thesis by (simp add: stored_stages_def)
next
  fix l
  assume "s' = AList.update ''stage'' (PStr ''get_password'')
                (AList.update ''location'' (PStr l) old)"
  then show ?thesis by (simp add: stored_stages_def update_conv')
next
  assume "s' = old" and "s' \<noteq> []"
  with old show ?thesis by simp
qed

lemma store_stages_ok_session_of:
  assumes "store_stages_ok convs"
  shows "session_of convs phone \<noteq> [] \<longrightarrow>
           map_of (session_of convs phone) ''stage'' \<in> stored_stages"
proof
  assume "session_of convs phone \<noteq> []"
  then have "session_of convs phone \<in> snd ` set convs"
    by (rule session_of_stored)
  with assms show "map_of (session_of convs phone) ''stage'' \<in> stored_stages"
    by (auto simp add: store_stages_ok_def)
qed

lemma store_stages_ok_preserved:
  assumes "store_stages_ok convs"
    and "whatsapp_bot intents coh cat drawn convs m = Inr (reply, convs')"
  shows "store_stages_ok convs'"
proof -
  have old: "session_of convs (user_phone_of m) \<noteq> [] \<longrightarrow>
               map_of (session_of convs (user_phone_of m)) ''stage'' \<in> stored_stages"
    using assms(1) by (rule store_stages_ok_session_of)
  have all: "\<forall>s \<in> snd ` set convs. map_of s ''stage'' \<in> stored_stages"
    using assms(1) by (simp only: store_stages_ok_def)
  from whatsapp_bot_cases [OF assms(2)] show ?thesis
  proof
    assume del: "convs' = AList.delete (user_phone_of m) convs"
    show ?thesis
      unfolding store_stages_ok_def del using all by (rule all_sessions_after_delete)
  next
    assume "\<exists>s'. convs' = AList.update (user_phone_of m) s' convs
                \<and> written_over (session_of convs (user_phone_of m)) s'"
    then obtain s' where convs': "convs' = AList.update (user_phone_of m) s' convs"
      and s': "written_over (session_of convs (user_phone_of m)) s'"
      by blast
    have "map_of s' ''stage'' \<in> stored_stages"
      using old s' by (rule stage_written)
    with all show ?thesis
      unfolding store_stages_ok_def convs' by (rule all_sessions_after_update)
  qed
qed

lemma serve_stages_ok:
  "store_stages_ok convs \<Longrightarrow> store_stages_ok (serve coh cat convs requests)"
proof (induction requests arbitrary: convs)
  case Nil
  then show ?case by simp
next
  case (Cons request requests)
  obtain intents drawn m where request: "request = (intents, drawn, m)"
    by (cases request) auto
  show ?case
  proof (cases "whatsapp_bot intents coh cat drawn convs m")
    case (Inl e)
    with Cons show ?thesis by (simp add: request)
  next
    case (Inr result)
    obtain reply convs' where result: "result = (reply, convs')"
      by (cases result) auto
    have "store_stages_ok convs'"
      using Cons.prems Inr [unfolded result] by (rule store_stages_ok_preserved)
    then have "store_stages_ok (serve coh cat convs' requests)"
      by (rule Cons.IH)
    then show ?thesis by (simp add: request Inr result)
  qed
qed

text \<open>
  C9. Whatever requests the process has served since it started with an empty store,
  every stored session has one of the stages \<open>greeting\<close>, \<open>get_location\<close>,
  \<open>get_password\<close>, \<open>get_status_id\<close>; none has \<open>get_description\<close>, so the branch for
  that stage is never taken on a session the webhook stored.
\<close>

theorem get_description_never_stored:
  "\<forall>s \<in> snd ` set (serve coh cat [] requests).
     map_of s ''stage'' \<in> {Some (PStr ''greeting''), Some (PStr ''get_location''),
                            Some (PStr ''get_password''), Some (PStr ''get_status_id'')}
     \<and> map_of s ''stage'' \<noteq> Some (PStr ''get_description'')"
proof -
  have "store_stages_ok []"
    by (simp add: store_stages_ok_def)
  then have "store_stages_ok (serve coh cat [] requests)"
    by (rule serve_stages_ok)
  then show ?thesis
    by (auto simp add: store_stages_ok_def stored_stages_def)
qed

theorem get_description_never_stored_witness:
  "\<exists>s \<in> snd ` set (serve (\<lambda>t. Inr True) (\<lambda>t. Inr ''Water'') []
                       [(example_intents, 0, example_message)]).
     map_of s ''stage'' \<in> {Some (PStr ''greeting''), Some (PStr ''get_location''),
                            Some (PStr ''get_password''), Some (PStr ''get_status_id'')}
     \<and> map_of s ''stage'' \<noteq> Some (PStr ''get_description'')"
proof -
  have "serve (\<lambda>t. Inr True) (\<lambda>t. Inr ''Water'') [] [(example_intents, 0, example_message)]
          = example_store"
    by (simp add: example_first_step)
  then have "example_session \<in> snd ` set (serve (\<lambda>t. Inr True) (\<lambda>t. Inr ''Water'') []
                       [(example_intents, 0, example_message)])"
    by (simp add: example_store_def)
  with get_description_never_stored
         [of "\<lambda>t. Inr True" "\<lambda>t. Inr ''Water''" "[(example_intents, 0, example_message)]"]
  show ?thesis by blast
qed

text \<open>The store after the first message, and the location sent next.\<close>

theorem stage_determines_fields_witness:
  "store_fields_ok example_store
   \<and> (\<exists>reply convs'.
         whatsapp_bot example_intents (\<lambda>t. Inr True) (\<lambda>t. Inr ''Water'') 0 example_store
           example_location_message = Inr (reply, convs')
         \<and> store_fields_ok convs')"
proof -
  have ok: "store_fields_ok example_store"
    by (simp add: store_fields_ok_def session_fields_ok_def example_store_def
        example_session_def)
  obtain reply convs' where step:
    "whatsapp_bot example_intents (\<lambda>t. Inr True) (\<lambda>t. Inr ''Water'') 0 example_store
       example_location_message = Inr (reply, convs')"
    by (simp add: whatsapp_bot_def session_of_def Let_def example_store_def
        example_session_def example_location_message_def user_phone_of_def split_on_def)
  from stage_determines_fields [OF ok step] ok step show ?thesis
    by blast
qed

end
